theory Spec2Isabelle
  imports Complex_Main "HOL-Library.Word" "HOL-Library.Signed_Division"
    "HOL-Library.Log_Nat" "HOL-Library.Stream"
begin

section \<open>Test-oracle generators of integration/util.go\<close>

text \<open>
  The development embeds the series generators of \<^verbatim>\<open>integration/util.go\<close>:
  the variant selector \<^verbatim>\<open>generateAlternatingSeries\<close>, the single-series histogram
  generator \<^verbatim>\<open>generateHistogramSeriesWrapper\<close> with its four public instances, and
  the bulk generator \<^verbatim>\<open>GenerateNHistogramSeries\<close>.

  Go's \<^verbatim>\<open>int\<close> is modelled by \<open>int\<close>: the only arithmetic the source does on it is
  the remainder \<^verbatim>\<open>i % 5\<close> and the loop increment \<^verbatim>\<open>i++\<close> below \<^verbatim>\<open>nSeries\<close>,
  neither of which can overflow. Millisecond timestamps are \<^verbatim>\<open>int64\<close> values that the
  source only passes on; they are 64-bit words.
\<close>

subsection \<open>Variant selector\<close>

text \<open>
  A \<^verbatim>\<open>generateSeriesFunc\<close> value returned by the selector is a reference to one of five
  functions: \<^verbatim>\<open>generateFloatSeries\<close> (plain float samples),
  \<^verbatim>\<open>generateHistogramSeries\<close> (counter, integer), \<^verbatim>\<open>GenerateFloatHistogramSeries\<close>
  (counter, float), \<^verbatim>\<open>GenerateGaugeHistogramSeries\<close> (gauge, integer) and
  \<^verbatim>\<open>GenerateGaugeFloatHistogramSeries\<close> (gauge, float). The \<^verbatim>\<open>nil\<close> reference of the
  default branch is \<open>None\<close>.
\<close>

datatype generateSeriesFunc =
    Ref_generateFloatSeries
  | Ref_generateHistogramSeries
  | Ref_GenerateFloatHistogramSeries
  | Ref_GenerateGaugeHistogramSeries
  | Ref_GenerateGaugeFloatHistogramSeries

text \<open>
  Go's \<^verbatim>\<open>%\<close> truncates towards zero, so the remainder has the sign of the dividend:
  it is \<open>smod\<close>, not HOL's \<open>mod\<close>.
\<close>

definition generateAlternatingSeries :: "int \<Rightarrow> generateSeriesFunc option" where
  "generateAlternatingSeries i =
     (let r = i smod 5 in
      if r = 0 then Some Ref_generateFloatSeries
      else if r = 1 then Some Ref_generateHistogramSeries
      else if r = 2 then Some Ref_GenerateFloatHistogramSeries
      else if r = 3 then Some Ref_GenerateGaugeHistogramSeries
      else if r = 4 then Some Ref_GenerateGaugeFloatHistogramSeries
      else None)"

subsection \<open>Wire format and expected results\<close>

type_synonym int64 = "64 word"

text \<open>\<^verbatim>\<open>prompb.Label\<close>.\<close>

record Label =
  Name :: string
  Value :: string

text \<open>
  \<^verbatim>\<open>prompb.Exemplar\<close>. Its value is a \<^verbatim>\<open>float64\<close>; every float written by the source
  is the conversion of an \<^verbatim>\<open>int\<close>, see \<open>float64\<close> below.
\<close>

record Exemplar =
  Labels :: "Label list"
  Value :: real
  Timestamp :: int64

text \<open>
  Modelled from the spec: \<^verbatim>\<open>prompb.Histogram\<close>, the histogram sample of the Prometheus
  remote-write format, whose declaration is not part of the source at hand. By the spec a
  histogram sample is constructed "at the given timestamp" from a histogram with integer or
  floating-point bucket counts. The wire histogram is the timestamp it was encoded at
  together with the integer or float histogram it encodes, which stays abstract.
\<close>

datatype ('h, 'fh) encoded = IntegerHistogram 'h | FloatHistogram 'fh

record ('h, 'fh) Histogram =
  Timestamp :: int64
  Encoded :: "('h, 'fh) encoded"

text \<open>
  Modelled from the spec: the encoders \<^verbatim>\<open>remote.HistogramToHistogramProto\<close> and
  \<^verbatim>\<open>remote.FloatHistogramToHistogramProto\<close> of the Prometheus remote-write library,
  which are not part of the source at hand. By the spec an encoder is given "a timestamp"
  and a histogram and "returns a wire-format histogram object".
\<close>

definition HistogramToHistogramProto :: "int64 \<Rightarrow> 'h \<Rightarrow> ('h, 'fh) Histogram" where
  "HistogramToHistogramProto timestamp h =
     \<lparr>Histogram.Timestamp = timestamp, Encoded = IntegerHistogram h\<rparr>"

definition FloatHistogramToHistogramProto :: "int64 \<Rightarrow> 'fh \<Rightarrow> ('h, 'fh) Histogram" where
  "FloatHistogramToHistogramProto timestamp fh =
     \<lparr>Histogram.Timestamp = timestamp, Encoded = FloatHistogram fh\<rparr>"

text \<open>
  \<^verbatim>\<open>prompb.TimeSeries\<close>: labels in wire order, float samples (never set by the
  generators here, so \<^verbatim>\<open>nil\<close>), exemplars and histogram samples.
\<close>

record ('h, 'fh) TimeSeries =
  Labels :: "Label list"
  Samples :: "(real \<times> int64) list"
  Exemplars :: "Exemplar list"
  Histograms :: "('h, 'fh) Histogram list"

text \<open>
  \<^verbatim>\<open>model.Metric\<close> is a Go map from label name to label value. \<^verbatim>\<open>model.Sample\<close> is
  an entry of an expected vector; its scalar \<^verbatim>\<open>Value\<close> is not set by the source and keeps
  the zero value, its \<^verbatim>\<open>Histogram\<close> is a pointer.
\<close>

type_synonym Metric = "string \<rightharpoonup> string"

record 'sh Sample =
  Metric :: Metric
  Value :: real
  Timestamp :: int64
  Histogram :: "'sh option"

text \<open>\<^verbatim>\<open>model.SampleHistogramPair\<close> and \<^verbatim>\<open>model.SampleStream\<close> (an entry of a matrix).\<close>

record 'sh SampleHistogramPair =
  Timestamp :: int64
  Histogram :: "'sh option"

record 'sh SampleStream =
  Metric :: Metric
  Values :: "(int64 \<times> real) list"
  Histograms :: "'sh SampleHistogramPair list"

text \<open>\<^verbatim>\<open>labels.MetricName\<close>, the reserved name of the metric-name label.\<close>

definition MetricName :: string where
  "MetricName = ''__name__''"

subsection \<open>What the generators take from outside\<close>

text \<open>
  The source calls \<^verbatim>\<open>e2e.TimeToMilliseconds\<close> of the test framework and the histogram
  builders of \<^verbatim>\<open>pkg/util/test\<close>, none of which is part of the source at hand. They are
  parameters: a conversion of a time (of any type \<open>'t\<close>) to milliseconds, and one function
  of the integer seed for each kind of test histogram.
\<close>

record ('t, 'h, 'fh, 'sh) externals =
  TimeToMilliseconds :: "'t \<Rightarrow> int64"
  generateTestHistogram :: "int \<Rightarrow> 'h"
  generateTestFloatHistogram :: "int \<Rightarrow> 'fh"
  generateTestGaugeHistogram :: "int \<Rightarrow> 'h"
  generateTestGaugeFloatHistogram :: "int \<Rightarrow> 'fh"
  generateTestSampleHistogram :: "int \<Rightarrow> 'sh"

text \<open>
  The conversion \<^verbatim>\<open>float64(i)\<close> of a Go \<^verbatim>\<open>int\<close>: the nearest binary64 number, ties to
  the even significand. Up to \<open>2 ^ 53\<close> in absolute value it is exact; beyond, the unit in
  the last place \<open>u\<close> is the power of two that leaves 53 significant bits.
\<close>

definition float64 :: "int \<Rightarrow> real" where
  "float64 i =
     (if \<bar>i\<bar> \<le> 2 ^ 53 then of_int i
      else
        let u = 2 ^ nat (bitlen \<bar>i\<bar> - 53);
            q = \<bar>i\<bar> div u;
            r = \<bar>i\<bar> mod u
        in of_int (sgn i * u * (if u < 2 * r \<or> (2 * r = u \<and> odd q) then q + 1 else q)))"

text \<open>
  \<^verbatim>\<open>rand.Intn\<close> of Go's standard library \<^verbatim>\<open>math/rand\<close>, on the process-wide random
  source: "a non-negative pseudo-random number in the half-open interval \<open>[0, n)\<close>", the
  spec's "random seed value \<open>v\<close> in a bounded range (0-999)", whose draw "consumes one value
  from the shared random source". The source of randomness is a stream of arbitrary raw
  numbers; a draw reduces the next one to \<open>[0, n)\<close> and moves on, and every number of the
  range is the draw from some stream. (Go panics for \<open>n \<le> 0\<close>; the only call of the
  source passes the constant 1000.)
\<close>

type_synonym rng = "nat stream"

definition rand_Intn :: "int \<Rightarrow> rng \<Rightarrow> int \<times> rng" where
  "rand_Intn n r = (int (shd r) mod n, stl r)"

subsection \<open>Single-series histogram generators\<close>

text \<open>
  The range loop of the source over \<^verbatim>\<open>additionalLabels\<close>, and over the labels of a built
  series in the bulk generator: each label is assigned into the map, so a later label
  replaces an earlier one of the same name.
\<close>

definition assignLabels :: "Label list \<Rightarrow> Metric \<Rightarrow> Metric" where
  "assignLabels lbls metric = fold (\<lambda>lbl m. m(Name lbl \<mapsto> Label.Value lbl)) lbls metric"

text \<open>
  The named results \<^verbatim>\<open>series\<close>, \<^verbatim>\<open>vector\<close> and \<^verbatim>\<open>matrix\<close> start as \<^verbatim>\<open>nil\<close> and
  are appended to once each. The vector entry and the matrix entry hold the same
  \<^verbatim>\<open>metric\<close> map. The state of the random source is passed in and returned.
\<close>

definition generateHistogramSeriesWrapper ::
  "('t, 'h, 'fh, 'sh) externals \<Rightarrow> (int64 \<Rightarrow> int \<Rightarrow> ('h, 'fh) Histogram) \<Rightarrow>
     string \<Rightarrow> 't \<Rightarrow> Label list \<Rightarrow> rng \<Rightarrow>
     (('h, 'fh) TimeSeries list \<times> 'sh Sample list \<times> 'sh SampleStream list) \<times> rng" where
  "generateHistogramSeriesWrapper X generateHistogram name ts additionalLabels rnd =
     (let tsMillis = TimeToMilliseconds X ts;
          (value, rnd') = rand_Intn 1000 rnd;
          lbls = [\<lparr>Name = MetricName, Label.Value = name\<rparr>] @ additionalLabels;
          series = [] @ [\<lparr>TimeSeries.Labels = lbls,
                           Samples = [],
                           Exemplars =
                             [\<lparr>Exemplar.Labels = [\<lparr>Name = ''trace_id'', Label.Value = ''1234''\<rparr>],
                               Exemplar.Value = float64 value,
                               Exemplar.Timestamp = tsMillis\<rparr>],
                           TimeSeries.Histograms = [generateHistogram tsMillis value]\<rparr>];
          metric = Map.empty;
          metric = metric(MetricName \<mapsto> name);
          metric = assignLabels additionalLabels metric;
          vector = [] @ [\<lparr>Sample.Metric = metric,
                           Sample.Value = 0,
                           Sample.Timestamp = tsMillis,
                           Sample.Histogram = Some (generateTestSampleHistogram X value)\<rparr>];
          matrix = [] @ [\<lparr>SampleStream.Metric = metric,
                           Values = [],
                           SampleStream.Histograms =
                             [\<lparr>SampleHistogramPair.Timestamp = tsMillis,
                               SampleHistogramPair.Histogram =
                                 Some (generateTestSampleHistogram X value)\<rparr>]\<rparr>]
      in ((series, vector, matrix), rnd'))"

definition GenerateHistogramSeries ::
  "('t, 'h, 'fh, 'sh) externals \<Rightarrow> string \<Rightarrow> 't \<Rightarrow> Label list \<Rightarrow> rng \<Rightarrow>
     (('h, 'fh) TimeSeries list \<times> 'sh Sample list \<times> 'sh SampleStream list) \<times> rng" where
  "GenerateHistogramSeries X name ts additionalLabels =
     generateHistogramSeriesWrapper X
       (\<lambda>tsMillis value. HistogramToHistogramProto tsMillis (generateTestHistogram X value))
       name ts additionalLabels"

definition GenerateFloatHistogramSeries ::
  "('t, 'h, 'fh, 'sh) externals \<Rightarrow> string \<Rightarrow> 't \<Rightarrow> Label list \<Rightarrow> rng \<Rightarrow>
     (('h, 'fh) TimeSeries list \<times> 'sh Sample list \<times> 'sh SampleStream list) \<times> rng" where
  "GenerateFloatHistogramSeries X name ts additionalLabels =
     generateHistogramSeriesWrapper X
       (\<lambda>tsMillis value. FloatHistogramToHistogramProto tsMillis (generateTestFloatHistogram X value))
       name ts additionalLabels"

definition GenerateGaugeHistogramSeries ::
  "('t, 'h, 'fh, 'sh) externals \<Rightarrow> string \<Rightarrow> 't \<Rightarrow> Label list \<Rightarrow> rng \<Rightarrow>
     (('h, 'fh) TimeSeries list \<times> 'sh Sample list \<times> 'sh SampleStream list) \<times> rng" where
  "GenerateGaugeHistogramSeries X name ts additionalLabels =
     generateHistogramSeriesWrapper X
       (\<lambda>tsMillis value. HistogramToHistogramProto tsMillis (generateTestGaugeHistogram X value))
       name ts additionalLabels"

definition GenerateGaugeFloatHistogramSeries ::
  "('t, 'h, 'fh, 'sh) externals \<Rightarrow> string \<Rightarrow> 't \<Rightarrow> Label list \<Rightarrow> rng \<Rightarrow>
     (('h, 'fh) TimeSeries list \<times> 'sh Sample list \<times> 'sh SampleStream list) \<times> rng" where
  "GenerateGaugeFloatHistogramSeries X name ts additionalLabels =
     generateHistogramSeriesWrapper X
       (\<lambda>tsMillis value. FloatHistogramToHistogramProto tsMillis (generateTestGaugeFloatHistogram X value))
       name ts additionalLabels"

subsection \<open>Bulk generator\<close>

text \<open>
  The callbacks \<^verbatim>\<open>name func() string\<close> and
  \<^verbatim>\<open>additionalLabels func() []prompb.Label\<close> are Go closures: a call may read and
  change whatever the closure captured. A callback is a function of that state \<open>'s\<close>,
  returning its result and the state it leaves; the generator threads the state through
  its calls in the order the source makes them. A \<^verbatim>\<open>nil\<close> callback is \<open>None\<close>.
\<close>

type_synonym ('a, 's) callback = "'s \<Rightarrow> 'a \<times> 's"

text \<open>
  Run-time panics of Go that the code can reach: indexing a slice out of its range, and
  calling a \<^verbatim>\<open>nil\<close> function value. The source tests \<^verbatim>\<open>additionalLabels\<close> for
  \<^verbatim>\<open>nil\<close> before calling it, and calls \<^verbatim>\<open>name\<close> untested.
\<close>

datatype panic = IndexOutOfRange | NilFunctionCall

text \<open>
  The body of the first loop at index \<open>i\<close>: the series to append and the state the
  callbacks leave.
\<close>

definition buildSeries ::
  "('t, 'h, 'fh, 'sh) externals \<Rightarrow> int64 \<Rightarrow> int \<Rightarrow> (string, 's) callback option \<Rightarrow>
     (Label list, 's) callback option \<Rightarrow> int \<Rightarrow> 's \<Rightarrow> panic + ('h, 'fh) TimeSeries \<times> 's" where
  "buildSeries X tsMillis nExemplars name additionalLabels i s =
     (case name of
        None \<Rightarrow> Inl NilFunctionCall
      | Some nameFn \<Rightarrow>
          (let (n, s) = nameFn s;
               lbls = [\<lparr>Name = MetricName, Label.Value = n\<rparr>];
               (lbls, s) = (case additionalLabels of
                              None \<Rightarrow> (lbls, s)
                            | Some f \<Rightarrow> (let (more, s) = f s in (lbls @ more, s)));
               exemplars = [];
               exemplars = (if i < nExemplars
                            then [\<lparr>Exemplar.Labels =
                                     [\<lparr>Name = ''trace_id'', Label.Value = ''1234''\<rparr>],
                                   Exemplar.Value = float64 i,
                                   Exemplar.Timestamp = tsMillis\<rparr>]
                            else exemplars)
           in Inr (\<lparr>TimeSeries.Labels = lbls,
                    Samples = [],
                    Exemplars = exemplars,
                    TimeSeries.Histograms =
                      [HistogramToHistogramProto tsMillis (generateTestHistogram X i)]\<rparr>, s)))"

text \<open>\<^verbatim>\<open>for i := 0; i < nSeries; i++\<close>, appending one series per round.\<close>

function seriesLoop ::
  "('t, 'h, 'fh, 'sh) externals \<Rightarrow> int64 \<Rightarrow> int \<Rightarrow> int \<Rightarrow> (string, 's) callback option \<Rightarrow>
     (Label list, 's) callback option \<Rightarrow> int \<Rightarrow> ('h, 'fh) TimeSeries list \<Rightarrow> 's \<Rightarrow>
     panic + ('h, 'fh) TimeSeries list \<times> 's" where
  "seriesLoop X tsMillis nSeries nExemplars name additionalLabels i series s =
     (if i < nSeries
      then (case buildSeries X tsMillis nExemplars name additionalLabels i s of
              Inl p \<Rightarrow> Inl p
            | Inr (built, s') \<Rightarrow>
                seriesLoop X tsMillis nSeries nExemplars name additionalLabels (i + 1)
                  (series @ [built]) s')
      else Inr (series, s))"
  by pat_completeness auto
termination
  by (relation "measure (\<lambda>(X, tsMillis, nSeries, nExemplars, name, additionalLabels, i, series, s).
                   nat (nSeries - i))") auto

text \<open>
  The second loop reads \<^verbatim>\<open>series[i].Labels\<close> and assigns each label into a fresh
  \<^verbatim>\<open>model.Metric\<close>. The index expression panics when \<open>i\<close> is not below the length
  of \<^verbatim>\<open>series\<close>.
\<close>

function vectorLoop ::
  "('t, 'h, 'fh, 'sh) externals \<Rightarrow> int64 \<Rightarrow> int \<Rightarrow> ('h, 'fh) TimeSeries list \<Rightarrow> int \<Rightarrow>
     'sh Sample list \<Rightarrow> panic + 'sh Sample list" where
  "vectorLoop X tsMillis nSeries series i vector =
     (if i < nSeries
      then (if 0 \<le> i \<and> i < int (length series)
            then (let metric = Map.empty;
                      metric = assignLabels (TimeSeries.Labels (series ! nat i)) metric
                  in vectorLoop X tsMillis nSeries series (i + 1)
                       (vector @ [\<lparr>Sample.Metric = metric,
                                    Sample.Value = 0,
                                    Sample.Timestamp = tsMillis,
                                    Sample.Histogram = Some (generateTestSampleHistogram X i)\<rparr>]))
            else Inl IndexOutOfRange)
      else Inr vector)"
  by pat_completeness auto
termination
  by (relation "measure (\<lambda>(X, tsMillis, nSeries, series, i, vector). nat (nSeries - i))") auto

declare seriesLoop.simps [simp del] vectorLoop.simps [simp del]

definition GenerateNHistogramSeries ::
  "('t, 'h, 'fh, 'sh) externals \<Rightarrow> int \<Rightarrow> int \<Rightarrow> (string, 's) callback option \<Rightarrow> 't \<Rightarrow>
     (Label list, 's) callback option \<Rightarrow> 's \<Rightarrow>
     panic + (('h, 'fh) TimeSeries list \<times> 'sh Sample list) \<times> 's" where
  "GenerateNHistogramSeries X nSeries nExemplars name ts additionalLabels s =
     (let tsMillis = TimeToMilliseconds X ts
      in case seriesLoop X tsMillis nSeries nExemplars name additionalLabels 0 [] s of
           Inl p \<Rightarrow> Inl p
         | Inr (series, s') \<Rightarrow>
             (case vectorLoop X tsMillis nSeries series 0 [] of
                Inl p \<Rightarrow> Inl p
              | Inr vector \<Rightarrow> Inr ((series, vector), s')))"

subsection \<open>Notions used in the statements\<close>

text \<open>
  The label set of a wire series, as the set of its name/value pairs, and the condition
  that no name occurs in a label list with two different values.
\<close>

definition labelPairs :: "Label list \<Rightarrow> (string \<times> string) set" where
  "labelPairs lbls = (\<lambda>lbl. (Name lbl, Label.Value lbl)) ` set lbls"

definition singleValued :: "Label list \<Rightarrow> bool" where
  "singleValued lbls =
     (\<forall>a \<in> set lbls. \<forall>b \<in> set lbls. Name a = Name b \<longrightarrow> Label.Value a = Label.Value b)"

text \<open>
  The value that the last label of name \<open>n\<close> in a label list gives to \<open>n\<close>, if there
  is such a label: read off the list from its end, without any map.
\<close>

definition lastValue :: "Label list \<Rightarrow> string \<Rightarrow> string option" where
  "lastValue lbls n = map_option Label.Value (find (\<lambda>lbl. Name lbl = n) (rev lbls))"

text \<open>
  The state one round of the first loop of the bulk generator leaves: one call of
  \<^verbatim>\<open>name\<close> (not \<^verbatim>\<open>nil\<close>), then one call of \<^verbatim>\<open>additionalLabels\<close> unless
  that is \<^verbatim>\<open>nil\<close>.
\<close>

definition callbacksOnce ::
  "(string, 's) callback \<Rightarrow> (Label list, 's) callback option \<Rightarrow> 's \<Rightarrow> 's" where
  "callbacksOnce name additionalLabels s =
     (case additionalLabels of None \<Rightarrow> snd (name s) | Some f \<Rightarrow> snd (f (snd (name s))))"

text \<open>The four public single-series histogram generators.\<close>

definition histogramSeriesGenerators ::
  "(('t, 'h, 'fh, 'sh) externals \<Rightarrow> string \<Rightarrow> 't \<Rightarrow> Label list \<Rightarrow> rng \<Rightarrow>
     (('h, 'fh) TimeSeries list \<times> 'sh Sample list \<times> 'sh SampleStream list) \<times> rng) list" where
  "histogramSeriesGenerators =
     [GenerateHistogramSeries, GenerateFloatHistogramSeries,
      GenerateGaugeHistogramSeries, GenerateGaugeFloatHistogramSeries]"

text \<open>
  An instance of the parameters, for running the generators on concrete inputs: a time is
  its number of milliseconds, and a test histogram is its kind together with its seed.
\<close>

definition exampleExternals :: "(int, string \<times> int, string \<times> int, int) externals" where
  "exampleExternals =
     \<lparr>TimeToMilliseconds = word_of_int,
      generateTestHistogram = (\<lambda>v. (''counter'', v)),
      generateTestFloatHistogram = (\<lambda>v. (''counter'', v)),
      generateTestGaugeHistogram = (\<lambda>v. (''gauge'', v)),
      generateTestGaugeFloatHistogram = (\<lambda>v. (''gauge'', v)),
      generateTestSampleHistogram = (\<lambda>v. v)\<rparr>"

text \<open>
  Callbacks for such runs: one that returns a fixed result and leaves the state alone, and
  one whose state counts its calls.
\<close>

definition fixedCallback :: "'a \<Rightarrow> ('a, 's) callback" where
  "fixedCallback a s = (a, s)"

definition countingCallback :: "'a \<Rightarrow> ('a, nat) callback" where
  "countingCallback a calls = (a, Suc calls)"

section \<open>Properties\<close>

subsection \<open>The variant selector\<close>

lemma smod5_nonneg: "0 \<le> i \<Longrightarrow> i smod 5 = i mod (5::int)"
  by (cases "i = 0") (simp_all add: signed_modulo_int_def sgn_if)

lemma smod5_small: "0 \<le> m \<Longrightarrow> m < 5 \<Longrightarrow> m smod 5 = (m::int) \<and> (- m) smod 5 = - m"
  by (cases "m = 0") (simp_all add: signed_modulo_int_def sgn_if)

lemma smod5_idem: "(i smod 5) smod 5 = i smod (5::int)"
proof (cases "0 \<le> i")
  case True
  then show ?thesis using smod5_small [of "i mod 5"] by (simp add: smod5_nonneg)
next
  case False
  then have "i smod 5 = - ((- i) mod 5)" by (simp add: signed_modulo_int_def sgn_if)
  then show ?thesis using smod5_small [of "(- i) mod 5"] by simp
qed

lemma smod5_negative: "i < 0 \<Longrightarrow> i smod 5 \<le> (0::int)"
  by (simp add: signed_modulo_int_def sgn_if)

lemma generateAlternatingSeries_first_ten:
  "map generateAlternatingSeries [0, 1, 2, 3, 4, 5, 6, 7, 8, 9] =
     [Some Ref_generateFloatSeries, Some Ref_generateHistogramSeries,
      Some Ref_GenerateFloatHistogramSeries, Some Ref_GenerateGaugeHistogramSeries,
      Some Ref_GenerateGaugeFloatHistogramSeries,
      Some Ref_generateFloatSeries, Some Ref_generateHistogramSeries,
      Some Ref_GenerateFloatHistogramSeries, Some Ref_GenerateGaugeHistogramSeries,
      Some Ref_GenerateGaugeFloatHistogramSeries]"
  by (simp add: generateAlternatingSeries_def signed_modulo_int_def)

lemma generateAlternatingSeries_nonneg:
  assumes "0 \<le> i"
  shows "generateAlternatingSeries i =
     Some ([Ref_generateFloatSeries, Ref_generateHistogramSeries,
            Ref_GenerateFloatHistogramSeries, Ref_GenerateGaugeHistogramSeries,
            Ref_GenerateGaugeFloatHistogramSeries] ! nat (i mod 5))"
proof -
  have "i mod 5 = 0 \<or> i mod 5 = 1 \<or> i mod 5 = 2 \<or> i mod 5 = 3 \<or> i mod 5 = 4"
    by presburger
  with assms show ?thesis
    by (auto simp add: generateAlternatingSeries_def smod5_nonneg)
qed

lemma generateAlternatingSeries_period:
  "0 \<le> i \<Longrightarrow> generateAlternatingSeries (i + 5) = generateAlternatingSeries i"
  by (simp add: generateAlternatingSeries_def smod5_nonneg)

text \<open>
  C4, as amended. For every integer \<open>i\<close> the selector chooses by Go's remainder
  \<^verbatim>\<open>i % 5\<close> alone. Called for \<open>i = 0..9\<close> it yields float, counter-integer,
  counter-float, gauge-integer, gauge-float and then the same five again; for every index
  from 0 on it is the table of the five generators read at \<open>i mod 5\<close>, and periodic with
  period 5.
\<close>

theorem generateAlternatingSeries_cyclic:
  "map generateAlternatingSeries [0, 1, 2, 3, 4, 5, 6, 7, 8, 9] =
     [Some Ref_generateFloatSeries, Some Ref_generateHistogramSeries,
      Some Ref_GenerateFloatHistogramSeries, Some Ref_GenerateGaugeHistogramSeries,
      Some Ref_GenerateGaugeFloatHistogramSeries,
      Some Ref_generateFloatSeries, Some Ref_generateHistogramSeries,
      Some Ref_GenerateFloatHistogramSeries, Some Ref_GenerateGaugeHistogramSeries,
      Some Ref_GenerateGaugeFloatHistogramSeries]
   \<and> (\<forall>i. generateAlternatingSeries i = generateAlternatingSeries (i smod 5))
   \<and> (\<forall>i\<ge>0. generateAlternatingSeries i =
          Some ([Ref_generateFloatSeries, Ref_generateHistogramSeries,
                 Ref_GenerateFloatHistogramSeries, Ref_GenerateGaugeHistogramSeries,
                 Ref_GenerateGaugeFloatHistogramSeries] ! nat (i mod 5))
        \<and> generateAlternatingSeries (i + 5) = generateAlternatingSeries i)"
proof (intro conjI allI impI)
  show "map generateAlternatingSeries [0, 1, 2, 3, 4, 5, 6, 7, 8, 9] =
     [Some Ref_generateFloatSeries, Some Ref_generateHistogramSeries,
      Some Ref_GenerateFloatHistogramSeries, Some Ref_GenerateGaugeHistogramSeries,
      Some Ref_GenerateGaugeFloatHistogramSeries,
      Some Ref_generateFloatSeries, Some Ref_generateHistogramSeries,
      Some Ref_GenerateFloatHistogramSeries, Some Ref_GenerateGaugeHistogramSeries,
      Some Ref_GenerateGaugeFloatHistogramSeries]"
    by (rule generateAlternatingSeries_first_ten)
next
  fix i :: int
  show "generateAlternatingSeries i = generateAlternatingSeries (i smod 5)"
    by (simp add: generateAlternatingSeries_def smod5_idem)
next
  fix i :: int
  assume "0 \<le> i"
  then show "generateAlternatingSeries i =
          Some ([Ref_generateFloatSeries, Ref_generateHistogramSeries,
                 Ref_GenerateFloatHistogramSeries, Ref_GenerateGaugeHistogramSeries,
                 Ref_GenerateGaugeFloatHistogramSeries] ! nat (i mod 5))"
    by (rule generateAlternatingSeries_nonneg)
next
  fix i :: int
  assume "0 \<le> i"
  then show "generateAlternatingSeries (i + 5) = generateAlternatingSeries i"
    by (rule generateAlternatingSeries_period)
qed

theorem generateAlternatingSeries_cyclic_witness:
  "(0::int) \<le> 7
   \<and> generateAlternatingSeries 7 = Some Ref_GenerateFloatHistogramSeries
   \<and> generateAlternatingSeries (7 + 5) = generateAlternatingSeries 7"
  using generateAlternatingSeries_cyclic [THEN conjunct2, THEN conjunct2, rule_format, of 7]
  by simp

text \<open>
  C4 as stated, for every integer index, fails below zero: at \<open>i = -1\<close> the remainder
  \<^verbatim>\<open>i % 5\<close> is \<open>-1\<close>, the selector returns \<^verbatim>\<open>nil\<close>, and five indices further
  it returns the gauge-float generator that \<open>-1 mod 5 = 4\<close> selects.
\<close>

theorem generateAlternatingSeries_cyclic_counterexample:
  "generateAlternatingSeries (- 1) = None
   \<and> (- 1) mod 5 = (4::int)
   \<and> generateAlternatingSeries 4 = Some Ref_GenerateGaugeFloatHistogramSeries
   \<and> generateAlternatingSeries (- 1 + 5) \<noteq> generateAlternatingSeries (- 1)"
  by (simp add: generateAlternatingSeries_def signed_modulo_int_def)

text \<open>
  C9. For an index from 0 on the selector returns one of the five generators, never the
  \<^verbatim>\<open>nil\<close> of the default branch; for a negative index whose truncated remainder by 5
  is not zero it returns \<^verbatim>\<open>nil\<close>.
\<close>

theorem generateAlternatingSeries_nil:
  "(0 \<le> i \<longrightarrow>
      generateAlternatingSeries i \<noteq> None
      \<and> generateAlternatingSeries i \<in>
          Some ` {Ref_generateFloatSeries, Ref_generateHistogramSeries,
                  Ref_GenerateFloatHistogramSeries, Ref_GenerateGaugeHistogramSeries,
                  Ref_GenerateGaugeFloatHistogramSeries})
   \<and> (i < 0 \<and> i smod 5 \<noteq> 0 \<longrightarrow> generateAlternatingSeries i = None)"
proof (intro conjI impI)
  assume nonneg: "0 \<le> i"
  have "i mod 5 = 0 \<or> i mod 5 = 1 \<or> i mod 5 = 2 \<or> i mod 5 = 3 \<or> i mod 5 = 4"
    by presburger
  then show "generateAlternatingSeries i \<in>
          Some ` {Ref_generateFloatSeries, Ref_generateHistogramSeries,
                  Ref_GenerateFloatHistogramSeries, Ref_GenerateGaugeHistogramSeries,
                  Ref_GenerateGaugeFloatHistogramSeries}"
    using nonneg by (auto simp add: generateAlternatingSeries_def smod5_nonneg)
  then show "generateAlternatingSeries i \<noteq> None"
    by auto
next
  assume "i < 0 \<and> i smod 5 \<noteq> 0"
  then show "generateAlternatingSeries i = None"
    using smod5_negative [of i] by (simp add: generateAlternatingSeries_def Let_def)
qed

theorem generateAlternatingSeries_nil_witness:
  "(0::int) \<le> 3 \<and> generateAlternatingSeries 3 \<noteq> None
   \<and> (-3::int) < 0 \<and> (-3::int) smod 5 \<noteq> 0 \<and> generateAlternatingSeries (-3) = None"
  using generateAlternatingSeries_nil [of 3] generateAlternatingSeries_nil [of "-3"]
  by (simp add: signed_modulo_int_def)

subsection \<open>Assigning labels into a metric\<close>

lemma assignLabels_Nil: "assignLabels [] m = m"
  by (simp add: assignLabels_def)

lemma assignLabels_Cons: "assignLabels (l # ls) m = assignLabels ls (m(Name l \<mapsto> Label.Value l))"
  by (simp add: assignLabels_def)

lemma assignLabels_append: "assignLabels (xs @ ys) m = assignLabels ys (assignLabels xs m)"
  by (simp add: assignLabels_def)

lemma assignLabels_dom: "dom (assignLabels ls m) = dom m \<union> Name ` set ls"
  by (induction ls arbitrary: m) (auto simp add: assignLabels_Nil assignLabels_Cons)

lemma assignLabels_lookup:
  "assignLabels ls m k = Some v \<Longrightarrow> m k = Some v \<or> (k, v) \<in> labelPairs ls"
proof (induction ls arbitrary: m)
  case Nil
  then show ?case by (simp add: assignLabels_Nil)
next
  case (Cons a ls)
  from Cons.prems have "assignLabels ls (m(Name a \<mapsto> Label.Value a)) k = Some v"
    by (simp add: assignLabels_Cons)
  then have "(m(Name a \<mapsto> Label.Value a)) k = Some v \<or> (k, v) \<in> labelPairs ls"
    by (rule Cons.IH)
  then show ?case
    by (auto simp add: labelPairs_def split: if_splits)
qed

lemma assignLabels_notin: "k \<notin> Name ` set ls \<Longrightarrow> assignLabels ls m k = m k"
  by (induction ls arbitrary: m) (auto simp add: assignLabels_Nil assignLabels_Cons)

lemma assignLabels_graph_sub: "Map.graph (assignLabels ls Map.empty) \<subseteq> labelPairs ls"
  using assignLabels_lookup [of ls Map.empty] by (auto simp add: Map.graph_def)

lemma assignLabels_assigned:
  "k \<in> Name ` set ls \<Longrightarrow> assignLabels ls m k = Some v \<Longrightarrow> (k, v) \<in> labelPairs ls"
proof (induction ls arbitrary: m)
  case Nil
  then show ?case by simp
next
  case (Cons a ls)
  from Cons.prems(2) have step: "assignLabels ls (m(Name a \<mapsto> Label.Value a)) k = Some v"
    by (simp add: assignLabels_Cons)
  show ?case
  proof (cases "k \<in> Name ` set ls")
    case True
    then have "(k, v) \<in> labelPairs ls" using step by (rule Cons.IH)
    then show ?thesis by (auto simp add: labelPairs_def)
  next
    case False
    with step have "(m(Name a \<mapsto> Label.Value a)) k = Some v"
      by (simp add: assignLabels_notin)
    moreover from False Cons.prems(1) have "k = Name a" by auto
    ultimately show ?thesis by (simp add: labelPairs_def)
  qed
qed

lemma assignLabels_graph_iff:
  "Map.graph (assignLabels ls Map.empty) = labelPairs ls \<longleftrightarrow> singleValued ls"
proof
  assume eq: "Map.graph (assignLabels ls Map.empty) = labelPairs ls"
  show "singleValued ls"
    unfolding singleValued_def
  proof (intro ballI impI)
    fix a b
    assume a: "a \<in> set ls" and b: "b \<in> set ls" and n: "Name a = Name b"
    have "(Name a, Label.Value a) \<in> labelPairs ls" "(Name b, Label.Value b) \<in> labelPairs ls"
      using a b by (simp_all add: labelPairs_def)
    then have "(Name a, Label.Value a) \<in> Map.graph (assignLabels ls Map.empty)"
      and "(Name b, Label.Value b) \<in> Map.graph (assignLabels ls Map.empty)"
      by (simp_all only: eq)
    then have "assignLabels ls Map.empty (Name a) = Some (Label.Value a)"
      and "assignLabels ls Map.empty (Name b) = Some (Label.Value b)"
      by (simp_all only: in_graphD)
    then show "Label.Value a = Label.Value b" using n by simp
  qed
next
  assume sv: "singleValued ls"
  show "Map.graph (assignLabels ls Map.empty) = labelPairs ls"
  proof
    show "Map.graph (assignLabels ls Map.empty) \<subseteq> labelPairs ls"
      by (rule assignLabels_graph_sub)
  next
    show "labelPairs ls \<subseteq> Map.graph (assignLabels ls Map.empty)"
    proof
      fix p
      assume "p \<in> labelPairs ls"
      then obtain l where l: "l \<in> set ls" and p: "p = (Name l, Label.Value l)"
        by (auto simp add: labelPairs_def)
      from l have "Name l \<in> dom (assignLabels ls Map.empty)"
        by (simp add: assignLabels_dom)
      then obtain v where v: "assignLabels ls Map.empty (Name l) = Some v"
        by auto
      with l have "(Name l, v) \<in> labelPairs ls"
        by (intro assignLabels_assigned) auto
      then obtain l' where l': "l' \<in> set ls" "Name l' = Name l" "Label.Value l' = v"
        by (auto simp add: labelPairs_def)
      with sv l have "v = Label.Value l"
        unfolding singleValued_def by blast
      with v p show "p \<in> Map.graph (assignLabels ls Map.empty)"
        by (simp add: in_graphI)
    qed
  qed
qed

lemma distinct_singleValued: "distinct (map Name ls) \<Longrightarrow> singleValued ls"
  unfolding singleValued_def
  by (auto simp add: distinct_map dest: inj_onD)

text \<open>
  Assignment in order keeps, for every name, the value of the last label of that name.
\<close>

lemma find_app:
  "find P (xs @ ys) = (case find P xs of None \<Rightarrow> find P ys | Some x \<Rightarrow> Some x)"
  by (induction xs) simp_all

lemma lastValue_Nil: "lastValue [] n = None"
  by (simp add: lastValue_def)

lemma lastValue_Cons:
  "lastValue (l # ls) n =
     (case lastValue ls n of
        None \<Rightarrow> (if Name l = n then Some (Label.Value l) else None)
      | Some v \<Rightarrow> Some v)"
  by (simp add: lastValue_def find_app split: option.splits)

lemma assignLabels_lastValue:
  "assignLabels ls m n = (case lastValue ls n of None \<Rightarrow> m n | Some v \<Rightarrow> Some v)"
proof (induction ls arbitrary: m)
  case Nil
  show ?case by (simp add: assignLabels_Nil lastValue_Nil)
next
  case (Cons l ls)
  have "assignLabels (l # ls) m n = assignLabels ls (m(Name l \<mapsto> Label.Value l)) n"
    by (simp add: assignLabels_Cons)
  also have "\<dots> = (case lastValue ls n of
                      None \<Rightarrow> (m(Name l \<mapsto> Label.Value l)) n | Some v \<Rightarrow> Some v)"
    by (rule Cons.IH)
  also have "\<dots> = (case lastValue (l # ls) n of None \<Rightarrow> m n | Some v \<Rightarrow> Some v)"
    by (simp add: lastValue_Cons split: option.splits)
  finally show ?case .
qed

lemma assignLabels_empty_lastValue: "assignLabels ls Map.empty = lastValue ls"
  by (rule ext) (simp add: assignLabels_lastValue split: option.splits)

lemma assignLabels_last:
  assumes "ls = xs @ l # ys" and "Name l \<notin> Name ` set ys"
  shows "assignLabels ls m (Name l) = Some (Label.Value l)"
proof -
  have "assignLabels ls m (Name l) =
          assignLabels ys ((assignLabels xs m)(Name l \<mapsto> Label.Value l)) (Name l)"
    by (simp add: assms(1) assignLabels_append assignLabels_Cons)
  also have "\<dots> = ((assignLabels xs m)(Name l \<mapsto> Label.Value l)) (Name l)"
    using assms(2) by (rule assignLabels_notin)
  finally show ?thesis by simp
qed

subsection \<open>The single-series generators\<close>

lemma generateHistogramSeriesWrapper_eq:
  "generateHistogramSeriesWrapper X g name ts add rnd =
    (([\<lparr>TimeSeries.Labels = \<lparr>Name = MetricName, Label.Value = name\<rparr> # add,
        Samples = [],
        Exemplars = [\<lparr>Exemplar.Labels = [\<lparr>Name = ''trace_id'', Label.Value = ''1234''\<rparr>],
                       Exemplar.Value = float64 (fst (rand_Intn 1000 rnd)),
                       Exemplar.Timestamp = TimeToMilliseconds X ts\<rparr>],
        TimeSeries.Histograms = [g (TimeToMilliseconds X ts) (fst (rand_Intn 1000 rnd))]\<rparr>],
      [\<lparr>Sample.Metric = assignLabels (\<lparr>Name = MetricName, Label.Value = name\<rparr> # add) Map.empty,
        Sample.Value = 0,
        Sample.Timestamp = TimeToMilliseconds X ts,
        Sample.Histogram = Some (generateTestSampleHistogram X (fst (rand_Intn 1000 rnd)))\<rparr>],
      [\<lparr>SampleStream.Metric = assignLabels (\<lparr>Name = MetricName, Label.Value = name\<rparr> # add) Map.empty,
        Values = [],
        SampleStream.Histograms =
          [\<lparr>SampleHistogramPair.Timestamp = TimeToMilliseconds X ts,
            SampleHistogramPair.Histogram = Some (generateTestSampleHistogram X (fst (rand_Intn 1000 rnd)))\<rparr>]\<rparr>]),
     snd (rand_Intn 1000 rnd))"
  by (simp add: generateHistogramSeriesWrapper_def Let_def split_def assignLabels_Cons)

lemma rand_Intn_range: "0 \<le> fst (rand_Intn 1000 rnd) \<and> fst (rand_Intn 1000 rnd) \<le> 999"
  by (simp add: rand_Intn_def)

lemma rand_Intn_any: "0 \<le> v \<Longrightarrow> v < 1000 \<Longrightarrow> fst (rand_Intn 1000 (sconst (nat v))) = v"
  by (simp add: rand_Intn_def)

subsection \<open>The loops of the bulk generator\<close>

text \<open>The series that round \<open>i\<close> builds from the callback state \<open>s\<close>.\<close>

lemma buildSeries_Some:
  "buildSeries X t M (Some nameFn) al i s =
     Inr (\<lparr>TimeSeries.Labels =
             \<lparr>Name = MetricName, Label.Value = fst (nameFn s)\<rparr> #
               (case al of None \<Rightarrow> [] | Some f \<Rightarrow> fst (f (snd (nameFn s)))),
           Samples = [],
           Exemplars =
             (if i < M
              then [\<lparr>Exemplar.Labels = [\<lparr>Name = ''trace_id'', Label.Value = ''1234''\<rparr>],
                     Exemplar.Value = float64 i, Exemplar.Timestamp = t\<rparr>]
              else []),
           TimeSeries.Histograms = [HistogramToHistogramProto t (generateTestHistogram X i)]\<rparr>,
          callbacksOnce nameFn al s)"
  by (simp add: buildSeries_def callbacksOnce_def Let_def split_def split: option.splits)

lemma buildSeries_None: "buildSeries X t M None al i s = Inl NilFunctionCall"
  by (simp add: buildSeries_def)

lemma upt_shift: "map f [0..<Suc n] = f 0 # map (\<lambda>k. f (Suc k)) [0..<n]"
  by (simp add: upt_rec [of 0 "Suc n"] map_Suc_upt [symmetric] del: upt_Suc)

lemma seriesLoop_eq:
  "seriesLoop X t N M (Some nameFn) al i acc s =
     Inr (acc @ map (\<lambda>k. fst (projr (buildSeries X t M (Some nameFn) al (i + int k)
                                  ((callbacksOnce nameFn al ^^ k) s))))
                  [0..<nat (N - i)],
          (callbacksOnce nameFn al ^^ nat (N - i)) s)"
proof (induction X t N M "Some nameFn" al i acc s rule: seriesLoop.induct)
  case (1 X t N M al i acc s)
  show ?case
  proof (cases "i < N")
    case False
    then show ?thesis by (subst seriesLoop.simps) simp
  next
    case True
    let ?s' = "callbacksOnce nameFn al s"
    obtain built where b: "buildSeries X t M (Some nameFn) al i s = Inr (built, ?s')"
      by (simp add: buildSeries_Some)
    then have built: "built = fst (projr (buildSeries X t M (Some nameFn) al i s))"
      by simp
    have n: "nat (N - i) = Suc (nat (N - (i + 1)))" using True by simp
    have "seriesLoop X t N M (Some nameFn) al i acc s =
            seriesLoop X t N M (Some nameFn) al (i + 1) (acc @ [built]) ?s'"
      using True by (subst seriesLoop.simps) (simp add: b)
    also have "\<dots> = Inr ((acc @ [built]) @
        map (\<lambda>k. fst (projr (buildSeries X t M (Some nameFn) al (i + 1 + int k)
                          ((callbacksOnce nameFn al ^^ k) ?s'))))
              [0..<nat (N - (i + 1))],
      (callbacksOnce nameFn al ^^ nat (N - (i + 1))) ?s')"
      using True b by (intro "1.hyps") simp_all
    also have "\<dots> = Inr (acc @
        map (\<lambda>k. fst (projr (buildSeries X t M (Some nameFn) al (i + int k)
                          ((callbacksOnce nameFn al ^^ k) s))))
              [0..<nat (N - i)],
      (callbacksOnce nameFn al ^^ nat (N - i)) s)"
      unfolding n upt_shift built
      by (simp add: funpow_swap1 ac_simps del: upt_Suc)
    finally show ?thesis .
  qed
qed

lemma seriesLoop_None:
  "i < N \<Longrightarrow> seriesLoop X t N M None al i acc s = Inl NilFunctionCall"
  by (subst seriesLoop.simps) (simp add: buildSeries_None)

lemma vectorLoop_eq:
  "0 \<le> i \<Longrightarrow> N \<le> int (length series) \<Longrightarrow>
   vectorLoop X t N series i acc =
     Inr (acc @ map (\<lambda>k. \<lparr>Sample.Metric = assignLabels (TimeSeries.Labels (series ! nat (i + int k))) Map.empty,
                             Sample.Value = 0,
                             Sample.Timestamp = t,
                             Sample.Histogram = Some (generateTestSampleHistogram X (i + int k))\<rparr>)
                   [0..<nat (N - i)])"
proof (induction X t N series i acc rule: vectorLoop.induct)
  case (1 X t N series i acc)
  show ?case
  proof (cases "i < N")
    case False
    then show ?thesis by (subst vectorLoop.simps) simp
  next
    case True
    have n: "nat (N - i) = Suc (nat (N - (i + 1)))" using True by simp
    have inr: "0 \<le> i \<and> i < int (length series)" using True "1.prems" by simp
    let ?e = "\<lparr>Sample.Metric = assignLabels (TimeSeries.Labels (series ! nat i)) Map.empty,
                             Sample.Value = 0,
                             Sample.Timestamp = t,
                             Sample.Histogram = Some (generateTestSampleHistogram X i)\<rparr>"
    have "vectorLoop X t N series i acc = vectorLoop X t N series (i + 1) (acc @ [?e])"
      using True inr by (subst vectorLoop.simps) (simp add: Let_def)
    also have "\<dots> = Inr ((acc @ [?e]) @ map (\<lambda>k. \<lparr>Sample.Metric = assignLabels (TimeSeries.Labels (series ! nat (i + 1 + int k))) Map.empty,
                             Sample.Value = 0,
                             Sample.Timestamp = t,
                             Sample.Histogram = Some (generateTestSampleHistogram X (i + 1 + int k))\<rparr>)
                   [0..<nat (N - (i + 1))])"
      using True inr "1.prems" by (intro "1.IH") simp_all
    also have "\<dots> = Inr (acc @ map (\<lambda>k. \<lparr>Sample.Metric = assignLabels (TimeSeries.Labels (series ! nat (i + int k))) Map.empty,
                             Sample.Value = 0,
                             Sample.Timestamp = t,
                             Sample.Histogram = Some (generateTestSampleHistogram X (i + int k))\<rparr>)
                   [0..<nat (N - i)])"
      unfolding n upt_shift
      by (simp add: ac_simps del: upt_Suc)
    finally show ?thesis .
  qed
qed

subsection \<open>The four generators and their wrapper\<close>

lemma generators_cases:
  assumes "G \<in> set histogramSeriesGenerators"
  shows "\<exists>g. (\<forall>X name ts add rnd.
                G X name ts add rnd = generateHistogramSeriesWrapper X (g X) name ts add rnd)
             \<and> (\<forall>X t v. Histogram.Timestamp (g X t v) = t)"
proof -
  from assms consider "G = GenerateHistogramSeries" | "G = GenerateFloatHistogramSeries"
    | "G = GenerateGaugeHistogramSeries" | "G = GenerateGaugeFloatHistogramSeries"
    by (auto simp add: histogramSeriesGenerators_def)
  then show ?thesis
  proof cases
    case 1
    show ?thesis
      by (rule exI [of _ "\<lambda>X t v. HistogramToHistogramProto t (generateTestHistogram X v)"])
         (simp add: 1 GenerateHistogramSeries_def HistogramToHistogramProto_def)
  next
    case 2
    show ?thesis
      by (rule exI [of _ "\<lambda>X t v. FloatHistogramToHistogramProto t (generateTestFloatHistogram X v)"])
         (simp add: 2 GenerateFloatHistogramSeries_def FloatHistogramToHistogramProto_def)
  next
    case 3
    show ?thesis
      by (rule exI [of _ "\<lambda>X t v. HistogramToHistogramProto t (generateTestGaugeHistogram X v)"])
         (simp add: 3 GenerateGaugeHistogramSeries_def HistogramToHistogramProto_def)
  next
    case 4
    show ?thesis
      by (rule exI [of _ "\<lambda>X t v. FloatHistogramToHistogramProto t (generateTestGaugeFloatHistogram X v)"])
         (simp add: 4 GenerateGaugeFloatHistogramSeries_def FloatHistogramToHistogramProto_def)
  qed
qed

text \<open>
  C8. Each of the four single-series histogram generators returns, for every input, one
  wire series holding exactly one histogram sample (and no float sample), one vector entry,
  and one matrix entry whose stream holds exactly one timestamp/histogram pair (and no
  float pair).
\<close>

theorem single_singletons:
  assumes "G \<in> set histogramSeriesGenerators"
  shows "\<exists>s v m h p rnd'.
     G X name ts additionalLabels rnd = (([s], [v], [m]), rnd')
     \<and> TimeSeries.Histograms s = [h] \<and> Samples s = []
     \<and> SampleStream.Histograms m = [p] \<and> Values m = []"
proof -
  from generators_cases [OF assms] obtain g where
    G: "\<And>X name ts add rnd. G X name ts add rnd = generateHistogramSeriesWrapper X (g X) name ts add rnd"
    by blast
  show ?thesis
    unfolding G generateHistogramSeriesWrapper_eq by simp
qed

theorem single_singletons_witness:
  "(GenerateGaugeFloatHistogramSeries ::
      (int, string \<times> int, string \<times> int, int) externals \<Rightarrow> string \<Rightarrow> int \<Rightarrow> Label list \<Rightarrow> rng \<Rightarrow> _)
     \<in> set histogramSeriesGenerators
   \<and> (\<exists>s v m h p rnd'.
        GenerateGaugeFloatHistogramSeries exampleExternals ''m'' 7
            [\<lparr>Name = ''job'', Label.Value = ''a''\<rparr>] (sconst 1042) =
          (([s], [v], [m]), rnd')
        \<and> TimeSeries.Histograms s = [h] \<and> Samples s = []
        \<and> SampleStream.Histograms m = [p] \<and> Values m = [])"
proof -
  have mem: "(GenerateGaugeFloatHistogramSeries ::
      (int, string \<times> int, string \<times> int, int) externals \<Rightarrow> string \<Rightarrow> int \<Rightarrow> Label list \<Rightarrow> rng \<Rightarrow> _)
     \<in> set histogramSeriesGenerators"
    by (simp add: histogramSeriesGenerators_def)
  from single_singletons [OF mem, of exampleExternals "''m''" 7
      "[\<lparr>Name = ''job'', Label.Value = ''a''\<rparr>]" "sconst 1042"]
  show ?thesis using mem
    by simp
qed

text \<open>
  C6. For every timestamp \<open>ts\<close>, each of the four generators stamps the wire histogram
  sample and the wire exemplar with \<open>ts\<close> converted to milliseconds, and the expected
  vector entry and the pair of the expected matrix entry carry the same milliseconds.
\<close>

theorem single_timestamps:
  assumes "G \<in> set histogramSeriesGenerators"
  shows "\<exists>s v m h e p rnd'.
     G X name ts additionalLabels rnd = (([s], [v], [m]), rnd')
     \<and> TimeSeries.Histograms s = [h] \<and> Histogram.Timestamp h = TimeToMilliseconds X ts
     \<and> Exemplars s = [e] \<and> Exemplar.Timestamp e = TimeToMilliseconds X ts
     \<and> Sample.Timestamp v = TimeToMilliseconds X ts
     \<and> SampleStream.Histograms m = [p]
     \<and> SampleHistogramPair.Timestamp p = TimeToMilliseconds X ts"
proof -
  from generators_cases [OF assms] obtain g where
    G: "\<And>X name ts add rnd. G X name ts add rnd = generateHistogramSeriesWrapper X (g X) name ts add rnd"
    and T: "\<And>X t v. Histogram.Timestamp (g X t v) = t"
    by blast
  show ?thesis
    unfolding G generateHistogramSeriesWrapper_eq by (simp add: T)
qed

theorem single_timestamps_witness:
  "(GenerateGaugeHistogramSeries ::
      (int, string \<times> int, string \<times> int, int) externals \<Rightarrow> string \<Rightarrow> int \<Rightarrow> Label list \<Rightarrow> rng \<Rightarrow> _)
     \<in> set histogramSeriesGenerators
   \<and> (\<exists>s v m h e p rnd'.
        GenerateGaugeHistogramSeries exampleExternals ''m'' 1704067200000 [] (sconst 1042) =
          (([s], [v], [m]), rnd')
        \<and> TimeSeries.Histograms s = [h] \<and> Histogram.Timestamp h = 1704067200000
        \<and> Exemplars s = [e] \<and> Exemplar.Timestamp e = 1704067200000
        \<and> Sample.Timestamp v = 1704067200000
        \<and> SampleStream.Histograms m = [p]
        \<and> SampleHistogramPair.Timestamp p = 1704067200000)"
proof -
  have mem: "(GenerateGaugeHistogramSeries ::
      (int, string \<times> int, string \<times> int, int) externals \<Rightarrow> string \<Rightarrow> int \<Rightarrow> Label list \<Rightarrow> rng \<Rightarrow> _)
     \<in> set histogramSeriesGenerators"
    by (simp add: histogramSeriesGenerators_def)
  from single_timestamps [OF mem, of exampleExternals "''m''" 1704067200000 "[]" "sconst 1042"]
  show ?thesis using mem
    by (simp add: exampleExternals_def)
qed

text \<open>
  C7. Every call of \<^verbatim>\<open>generateHistogramSeriesWrapper\<close> draws one seed between 0 and 999
  and puts exactly one exemplar on the wire series: its value is the seed (which
  \<^verbatim>\<open>float64\<close> represents exactly), its only label is \<^verbatim>\<open>trace_id="1234"\<close>. The expected
  vector and matrix entries consist of the metric, the timestamp and the sample histogram
  of the seed; they have no exemplar.
\<close>

theorem single_exemplar:
  "\<exists>value s v m rnd'.
     generateHistogramSeriesWrapper X generateHistogram name ts additionalLabels rnd =
       (([s], [v], [m]), rnd')
     \<and> rand_Intn 1000 rnd = (value, rnd')
     \<and> 0 \<le> value \<and> value \<le> 999
     \<and> Exemplars s =
         [\<lparr>Exemplar.Labels = [\<lparr>Name = ''trace_id'', Label.Value = ''1234''\<rparr>],
           Exemplar.Value = of_int value,
           Exemplar.Timestamp = TimeToMilliseconds X ts\<rparr>]
     \<and> v = \<lparr>Sample.Metric = assignLabels additionalLabels [MetricName \<mapsto> name],
             Sample.Value = 0,
             Sample.Timestamp = TimeToMilliseconds X ts,
             Sample.Histogram = Some (generateTestSampleHistogram X value)\<rparr>
     \<and> m = \<lparr>SampleStream.Metric = assignLabels additionalLabels [MetricName \<mapsto> name],
             Values = [],
             SampleStream.Histograms =
               [\<lparr>SampleHistogramPair.Timestamp = TimeToMilliseconds X ts,
                 SampleHistogramPair.Histogram = Some (generateTestSampleHistogram X value)\<rparr>]\<rparr>"
proof -
  obtain drawn rnd' where d: "rand_Intn 1000 rnd = (drawn, rnd')"
    by (cases "rand_Intn 1000 rnd")
  then have r: "0 \<le> drawn \<and> drawn \<le> 999"
    using rand_Intn_range [of rnd] by simp
  then have f: "float64 drawn = of_int drawn"
    by (simp add: float64_def)
  show ?thesis
    unfolding generateHistogramSeriesWrapper_eq d
    using r f by (simp add: assignLabels_Cons)
qed

theorem single_exemplar_witness:
  "\<exists>s v m rnd'.
     generateHistogramSeriesWrapper exampleExternals
         (\<lambda>tsMillis value. HistogramToHistogramProto tsMillis (''counter'', value))
         ''m'' 7 [] (sconst 1042) =
       (([s], [v], [m]), rnd')
     \<and> rand_Intn 1000 (sconst 1042) = (42, rnd')
     \<and> Exemplars s =
         [\<lparr>Exemplar.Labels = [\<lparr>Name = ''trace_id'', Label.Value = ''1234''\<rparr>],
           Exemplar.Value = 42,
           Exemplar.Timestamp = 7\<rparr>]"
proof -
  from single_exemplar [of exampleExternals
      "\<lambda>tsMillis value. HistogramToHistogramProto tsMillis (''counter'', value)"
      "''m''" 7 "[]" "sconst 1042"]
  show ?thesis
    by (auto simp add: rand_Intn_def exampleExternals_def)
qed

lemma single_labels_sets:
  "\<exists>s v m rnd'.
     generateHistogramSeriesWrapper X generateHistogram name ts additionalLabels rnd =
       (([s], [v], [m]), rnd')
     \<and> TimeSeries.Labels s = \<lparr>Name = MetricName, Label.Value = name\<rparr> # additionalLabels
     \<and> Sample.Metric v = assignLabels (TimeSeries.Labels s) Map.empty
     \<and> SampleStream.Metric m = Sample.Metric v
     \<and> dom (Sample.Metric v) = Name ` set (TimeSeries.Labels s)
     \<and> MetricName \<in> dom (Sample.Metric v)
     \<and> Map.graph (Sample.Metric v) \<subseteq> labelPairs (TimeSeries.Labels s)
     \<and> (Map.graph (Sample.Metric v) = labelPairs (TimeSeries.Labels s)
          \<longleftrightarrow> singleValued (TimeSeries.Labels s))"
  unfolding generateHistogramSeriesWrapper_eq
  by (simp add: assignLabels_dom assignLabels_graph_sub assignLabels_graph_iff)

text \<open>
  C2, as amended. For every metric name, timestamp and list of additional labels, the
  empty list included, the expected vector entry and the expected matrix entry carry the
  same metric: the map obtained by assigning the labels of the wire series in order. It has
  exactly the label names of the wire series, the metric-name label among them, and each of
  its entries is a label of the wire series. It is exactly the label set of the wire series
  if and only if no name has two different values among the metric-name label and the
  additional labels. Of a name that occurs more than once the expected entries keep only
  the later value: the metric gives every name the value of the last wire label of that
  name, so a label that no later label of the same name follows is an entry of the metric.
\<close>

theorem single_labels:
  "\<exists>s v m rnd'.
     generateHistogramSeriesWrapper X generateHistogram name ts additionalLabels rnd =
       (([s], [v], [m]), rnd')
     \<and> TimeSeries.Labels s = \<lparr>Name = MetricName, Label.Value = name\<rparr> # additionalLabels
     \<and> Sample.Metric v = assignLabels (TimeSeries.Labels s) Map.empty
     \<and> SampleStream.Metric m = Sample.Metric v
     \<and> dom (Sample.Metric v) = Name ` set (TimeSeries.Labels s)
     \<and> MetricName \<in> dom (Sample.Metric v)
     \<and> Map.graph (Sample.Metric v) \<subseteq> labelPairs (TimeSeries.Labels s)
     \<and> (Map.graph (Sample.Metric v) = labelPairs (TimeSeries.Labels s)
          \<longleftrightarrow> singleValued (TimeSeries.Labels s))
     \<and> Sample.Metric v = lastValue (TimeSeries.Labels s)
     \<and> (\<forall>before lbl after.
           TimeSeries.Labels s = before @ lbl # after \<and> Name lbl \<notin> Name ` set after \<longrightarrow>
           Sample.Metric v (Name lbl) = Some (Label.Value lbl))"
proof -
  from single_labels_sets [of X generateHistogram name ts additionalLabels rnd]
  obtain s v m rnd' where
    run: "generateHistogramSeriesWrapper X generateHistogram name ts additionalLabels rnd =
            (([s], [v], [m]), rnd')"
    and lbls: "TimeSeries.Labels s = \<lparr>Name = MetricName, Label.Value = name\<rparr> # additionalLabels"
    and metric: "Sample.Metric v = assignLabels (TimeSeries.Labels s) Map.empty"
    and same: "SampleStream.Metric m = Sample.Metric v"
    and names: "dom (Sample.Metric v) = Name ` set (TimeSeries.Labels s)"
    and present: "MetricName \<in> dom (Sample.Metric v)"
    and sub: "Map.graph (Sample.Metric v) \<subseteq> labelPairs (TimeSeries.Labels s)"
    and equal: "Map.graph (Sample.Metric v) = labelPairs (TimeSeries.Labels s)
                  \<longleftrightarrow> singleValued (TimeSeries.Labels s)"
    by blast
  have last: "Sample.Metric v = lastValue (TimeSeries.Labels s)"
    unfolding metric by (rule assignLabels_empty_lastValue)
  have later: "\<forall>before lbl after.
           TimeSeries.Labels s = before @ lbl # after \<and> Name lbl \<notin> Name ` set after \<longrightarrow>
           Sample.Metric v (Name lbl) = Some (Label.Value lbl)"
    unfolding metric by (blast intro: assignLabels_last)
  from run lbls metric same names present sub equal last later show ?thesis
    by blast
qed

theorem single_labels_witness:
  "(\<exists>s v m rnd'.
      generateHistogramSeriesWrapper exampleExternals
          (\<lambda>tsMillis value. HistogramToHistogramProto tsMillis (''counter'', value))
          ''m'' 7 [\<lparr>Name = ''job'', Label.Value = ''a''\<rparr>] (sconst 1042) =
        (([s], [v], [m]), rnd')
      \<and> TimeSeries.Labels s =
           [\<lparr>Name = ''__name__'', Label.Value = ''m''\<rparr>, \<lparr>Name = ''job'', Label.Value = ''a''\<rparr>]
      \<and> singleValued (TimeSeries.Labels s)
      \<and> Map.graph (Sample.Metric v) = labelPairs (TimeSeries.Labels s)
      \<and> Map.graph (SampleStream.Metric m) = labelPairs (TimeSeries.Labels s))
   \<and> (\<exists>s v m rnd'.
      generateHistogramSeriesWrapper exampleExternals
          (\<lambda>tsMillis value. HistogramToHistogramProto tsMillis (''counter'', value))
          ''m'' 7 [\<lparr>Name = ''job'', Label.Value = ''a''\<rparr>,
                   \<lparr>Name = ''job'', Label.Value = ''b''\<rparr>] (sconst 1042) =
        (([s], [v], [m]), rnd')
      \<and> TimeSeries.Labels s =
           [\<lparr>Name = ''__name__'', Label.Value = ''m''\<rparr>, \<lparr>Name = ''job'', Label.Value = ''a''\<rparr>]
             @ \<lparr>Name = ''job'', Label.Value = ''b''\<rparr> # []
      \<and> ''job'' \<notin> Name ` set ([] :: Label list)
      \<and> Sample.Metric v ''job'' = Some ''b''
      \<and> SampleStream.Metric m ''job'' = Some ''b'')"
proof (rule conjI)
  from single_labels [of exampleExternals
      "\<lambda>tsMillis value. HistogramToHistogramProto tsMillis (''counter'', value)"
      "''m''" 7 "[\<lparr>Name = ''job'', Label.Value = ''a''\<rparr>]" "sconst 1042"]
  obtain s v m rnd' where
    run: "generateHistogramSeriesWrapper exampleExternals
         (\<lambda>tsMillis value. HistogramToHistogramProto tsMillis (''counter'', value))
         ''m'' 7 [\<lparr>Name = ''job'', Label.Value = ''a''\<rparr>] (sconst 1042) =
       (([s], [v], [m]), rnd')"
    and lbls: "TimeSeries.Labels s =
         \<lparr>Name = MetricName, Label.Value = ''m''\<rparr> # [\<lparr>Name = ''job'', Label.Value = ''a''\<rparr>]"
    and same: "SampleStream.Metric m = Sample.Metric v"
    and iff: "Map.graph (Sample.Metric v) = labelPairs (TimeSeries.Labels s)
          \<longleftrightarrow> singleValued (TimeSeries.Labels s)"
    by blast
  have sv: "singleValued (TimeSeries.Labels s)"
    unfolding lbls by (simp add: singleValued_def MetricName_def)
  with iff same lbls run
  show "\<exists>s v m rnd'.
      generateHistogramSeriesWrapper exampleExternals
          (\<lambda>tsMillis value. HistogramToHistogramProto tsMillis (''counter'', value))
          ''m'' 7 [\<lparr>Name = ''job'', Label.Value = ''a''\<rparr>] (sconst 1042) =
        (([s], [v], [m]), rnd')
      \<and> TimeSeries.Labels s =
           [\<lparr>Name = ''__name__'', Label.Value = ''m''\<rparr>, \<lparr>Name = ''job'', Label.Value = ''a''\<rparr>]
      \<and> singleValued (TimeSeries.Labels s)
      \<and> Map.graph (Sample.Metric v) = labelPairs (TimeSeries.Labels s)
      \<and> Map.graph (SampleStream.Metric m) = labelPairs (TimeSeries.Labels s)"
    by (simp add: MetricName_def)
next
  from single_labels [of exampleExternals
      "\<lambda>tsMillis value. HistogramToHistogramProto tsMillis (''counter'', value)"
      "''m''" 7 "[\<lparr>Name = ''job'', Label.Value = ''a''\<rparr>, \<lparr>Name = ''job'', Label.Value = ''b''\<rparr>]"
      "sconst 1042"]
  obtain s v m rnd' where
    run: "generateHistogramSeriesWrapper exampleExternals
         (\<lambda>tsMillis value. HistogramToHistogramProto tsMillis (''counter'', value))
         ''m'' 7 [\<lparr>Name = ''job'', Label.Value = ''a''\<rparr>,
                  \<lparr>Name = ''job'', Label.Value = ''b''\<rparr>] (sconst 1042) =
       (([s], [v], [m]), rnd')"
    and lbls: "TimeSeries.Labels s =
         \<lparr>Name = MetricName, Label.Value = ''m''\<rparr> #
           [\<lparr>Name = ''job'', Label.Value = ''a''\<rparr>, \<lparr>Name = ''job'', Label.Value = ''b''\<rparr>]"
    and same: "SampleStream.Metric m = Sample.Metric v"
    and later: "\<And>before lbl after.
           TimeSeries.Labels s = before @ lbl # after \<and> Name lbl \<notin> Name ` set after \<Longrightarrow>
           Sample.Metric v (Name lbl) = Some (Label.Value lbl)"
    by blast
  have split: "TimeSeries.Labels s =
           [\<lparr>Name = ''__name__'', Label.Value = ''m''\<rparr>, \<lparr>Name = ''job'', Label.Value = ''a''\<rparr>]
             @ \<lparr>Name = ''job'', Label.Value = ''b''\<rparr> # []"
    unfolding lbls by (simp add: MetricName_def)
  from later [of "[\<lparr>Name = ''__name__'', Label.Value = ''m''\<rparr>, \<lparr>Name = ''job'', Label.Value = ''a''\<rparr>]"
      "\<lparr>Name = ''job'', Label.Value = ''b''\<rparr>" "[]"] split
  have kept: "Sample.Metric v ''job'' = Some ''b''"
    by simp
  with same split run
  show "\<exists>s v m rnd'.
      generateHistogramSeriesWrapper exampleExternals
          (\<lambda>tsMillis value. HistogramToHistogramProto tsMillis (''counter'', value))
          ''m'' 7 [\<lparr>Name = ''job'', Label.Value = ''a''\<rparr>,
                   \<lparr>Name = ''job'', Label.Value = ''b''\<rparr>] (sconst 1042) =
        (([s], [v], [m]), rnd')
      \<and> TimeSeries.Labels s =
           [\<lparr>Name = ''__name__'', Label.Value = ''m''\<rparr>, \<lparr>Name = ''job'', Label.Value = ''a''\<rparr>]
             @ \<lparr>Name = ''job'', Label.Value = ''b''\<rparr> # []
      \<and> ''job'' \<notin> Name ` set ([] :: Label list)
      \<and> Sample.Metric v ''job'' = Some ''b''
      \<and> SampleStream.Metric m ''job'' = Some ''b''"
    by simp
qed

text \<open>
  C2 as stated, for lists with a reserved or duplicate label name, fails: with the
  additional label \<^verbatim>\<open>__name__="x"\<close> the wire series of metric \<^verbatim>\<open>m\<close> carries both
  \<^verbatim>\<open>__name__="m"\<close> and \<^verbatim>\<open>__name__="x"\<close>, and the expected metric only the latter.
\<close>

theorem single_labels_counterexample:
  "labelPairs (TimeSeries.Labels (hd (fst (fst
      (GenerateHistogramSeries exampleExternals ''m'' 0
         [\<lparr>Name = ''__name__'', Label.Value = ''x''\<rparr>] (sconst 0))))))
   \<noteq> Map.graph (Sample.Metric (hd (fst (snd (fst
      (GenerateHistogramSeries exampleExternals ''m'' 0
         [\<lparr>Name = ''__name__'', Label.Value = ''x''\<rparr>] (sconst 0)))))))
   \<and> Sample.Metric (hd (fst (snd (fst
      (GenerateHistogramSeries exampleExternals ''m'' 0
         [\<lparr>Name = ''__name__'', Label.Value = ''x''\<rparr>] (sconst 0))))))
        ''__name__'' = Some ''x''"
proof -
  let ?R = "GenerateHistogramSeries exampleExternals ''m'' 0
         [\<lparr>Name = ''__name__'', Label.Value = ''x''\<rparr>] (sconst 0)"
  have wire: "TimeSeries.Labels (hd (fst (fst ?R))) =
      [\<lparr>Name = ''__name__'', Label.Value = ''m''\<rparr>, \<lparr>Name = ''__name__'', Label.Value = ''x''\<rparr>]"
    by (simp add: GenerateHistogramSeries_def generateHistogramSeriesWrapper_eq MetricName_def)
  have expected: "Sample.Metric (hd (fst (snd (fst ?R)))) ''__name__'' = Some ''x''"
    by (simp add: GenerateHistogramSeries_def generateHistogramSeriesWrapper_eq MetricName_def
        assignLabels_Cons assignLabels_Nil)
  have "(''__name__'', ''m'') \<in> labelPairs (TimeSeries.Labels (hd (fst (fst ?R))))"
    unfolding wire by (simp add: labelPairs_def)
  moreover have "(''__name__'', ''m'') \<notin> Map.graph (Sample.Metric (hd (fst (snd (fst ?R)))))"
    using expected by (auto dest: in_graphD)
  ultimately have "labelPairs (TimeSeries.Labels (hd (fst (fst ?R))))
                     \<noteq> Map.graph (Sample.Metric (hd (fst (snd (fst ?R)))))"
    by blast
  then show ?thesis using expected by (intro conjI)
qed

subsection \<open>The bulk generator\<close>

lemma GenerateNHistogramSeries_eq:
  "GenerateNHistogramSeries X N M (Some nameFn) ts al s =
     Inr ((map (\<lambda>k. fst (projr (buildSeries X (TimeToMilliseconds X ts) M (Some nameFn) al (int k)
                          ((callbacksOnce nameFn al ^^ k) s)))) [0..<nat N],
           map (\<lambda>k. \<lparr>Sample.Metric =
                        assignLabels (TimeSeries.Labels
                          (fst (projr (buildSeries X (TimeToMilliseconds X ts) M (Some nameFn) al (int k)
                             ((callbacksOnce nameFn al ^^ k) s))))) Map.empty,
                      Sample.Value = 0,
                      Sample.Timestamp = TimeToMilliseconds X ts,
                      Sample.Histogram = Some (generateTestSampleHistogram X (int k))\<rparr>)
               [0..<nat N]),
          (callbacksOnce nameFn al ^^ nat N) s)"
proof -
  let ?t = "TimeToMilliseconds X ts"
  let ?series = "map (\<lambda>k. fst (projr (buildSeries X ?t M (Some nameFn) al (int k)
                          ((callbacksOnce nameFn al ^^ k) s)))) [0..<nat N]"
  have loop1: "seriesLoop X ?t N M (Some nameFn) al 0 [] s =
                 Inr (?series, (callbacksOnce nameFn al ^^ nat N) s)"
    by (simp add: seriesLoop_eq)
  have "N \<le> int (length ?series)" by simp
  then have "vectorLoop X ?t N ?series 0 [] =
     Inr (map (\<lambda>k. \<lparr>Sample.Metric = assignLabels (TimeSeries.Labels (?series ! nat (0 + int k))) Map.empty,
                      Sample.Value = 0,
                      Sample.Timestamp = ?t,
                      Sample.Histogram = Some (generateTestSampleHistogram X (0 + int k))\<rparr>)
               [0..<nat (N - 0)])"
    using vectorLoop_eq [of 0 N ?series X ?t "[]"] by simp
  moreover have "map (\<lambda>k. \<lparr>Sample.Metric = assignLabels (TimeSeries.Labels (?series ! nat (0 + int k))) Map.empty,
                      Sample.Value = 0,
                      Sample.Timestamp = ?t,
                      Sample.Histogram = Some (generateTestSampleHistogram X (0 + int k))\<rparr>)
               [0..<nat (N - 0)] =
        map (\<lambda>k. \<lparr>Sample.Metric =
                        assignLabels (TimeSeries.Labels
                          (fst (projr (buildSeries X ?t M (Some nameFn) al (int k)
                             ((callbacksOnce nameFn al ^^ k) s))))) Map.empty,
                      Sample.Value = 0,
                      Sample.Timestamp = ?t,
                      Sample.Histogram = Some (generateTestSampleHistogram X (int k))\<rparr>)
               [0..<nat N]"
    by (rule map_cong) simp_all
  ultimately have loop2: "vectorLoop X ?t N ?series 0 [] =
     Inr (map (\<lambda>k. \<lparr>Sample.Metric =
                        assignLabels (TimeSeries.Labels
                          (fst (projr (buildSeries X ?t M (Some nameFn) al (int k)
                             ((callbacksOnce nameFn al ^^ k) s))))) Map.empty,
                      Sample.Value = 0,
                      Sample.Timestamp = ?t,
                      Sample.Histogram = Some (generateTestSampleHistogram X (int k))\<rparr>)
               [0..<nat N])"
    by simp
  show ?thesis
    unfolding GenerateNHistogramSeries_def Let_def loop1 sum.case prod.case loop2 ..
qed

lemma GenerateNHistogramSeries_nil_name:
  "0 < N \<Longrightarrow> GenerateNHistogramSeries X N M None ts al s = Inl NilFunctionCall"
  by (simp add: GenerateNHistogramSeries_def seriesLoop_None)

text \<open>
  C10. For a series count \<open>nSeries \<le> 0\<close> the bulk generator returns no series and no
  vector entry, whatever the exemplar count; it does not panic, and it calls neither
  callback: whatever the callbacks are (\<^verbatim>\<open>nil\<close> or not), their state is returned as it
  was passed in.
\<close>

theorem bulk_empty:
  assumes "nSeries \<le> 0"
  shows "GenerateNHistogramSeries X nSeries nExemplars name ts additionalLabels s =
           Inr (([], []), s)"
proof -
  let ?t = "TimeToMilliseconds X ts"
  from assms have no_round: "\<not> 0 < nSeries"
    by simp
  have first: "seriesLoop X ?t nSeries nExemplars name additionalLabels 0 [] s = Inr ([], s)"
    using no_round by (subst seriesLoop.simps) simp
  have second: "vectorLoop X ?t nSeries [] 0 [] = Inr []"
    using no_round by (subst vectorLoop.simps) simp
  show ?thesis
    by (simp add: GenerateNHistogramSeries_def first second)
qed

theorem bulk_empty_witness:
  "(-2::int) \<le> 0
   \<and> GenerateNHistogramSeries exampleExternals (-2) 5 (Some (countingCallback ''series'')) 0
        (Some (countingCallback [\<lparr>Name = ''job'', Label.Value = ''a''\<rparr>])) 0 = Inr (([], []), 0)"
  using bulk_empty [of "-2" exampleExternals 5 "Some (countingCallback ''series'')" 0
      "Some (countingCallback [\<lparr>Name = ''job'', Label.Value = ''a''\<rparr>])" 0]
  by simp

text \<open>
  C3. The bulk generator returns as many series as vector entries, \<open>nSeries\<close> of each.
  For every index \<open>i\<close> from 0 below \<open>nSeries\<close>: series \<open>i\<close> carries the one exemplar
  of value \<^verbatim>\<open>float64(i)\<close> (which is \<open>i\<close> itself up to \<open>2 ^ 53\<close>) when
  \<open>i < nExemplars\<close> and no exemplar otherwise; its one histogram is the encoding of the
  test histogram of seed \<open>i\<close>; and vector entry \<open>i\<close> holds the sample histogram of
  seed \<open>i\<close>.
\<close>

theorem bulk_index:
  "\<exists>series vector s'.
     GenerateNHistogramSeries X nSeries nExemplars (Some name) ts additionalLabels s =
       Inr ((series, vector), s')
     \<and> int (length series) = max 0 nSeries
     \<and> length vector = length series
     \<and> (\<forall>i. 0 \<le> i \<and> i < nSeries \<longrightarrow>
          Exemplars (series ! nat i) =
            (if i < nExemplars
             then [\<lparr>Exemplar.Labels = [\<lparr>Name = ''trace_id'', Label.Value = ''1234''\<rparr>],
                    Exemplar.Value = float64 i,
                    Exemplar.Timestamp = TimeToMilliseconds X ts\<rparr>]
             else [])
          \<and> (i \<le> 2 ^ 53 \<longrightarrow> float64 i = of_int i)
          \<and> TimeSeries.Histograms (series ! nat i) =
              [HistogramToHistogramProto (TimeToMilliseconds X ts) (generateTestHistogram X i)]
          \<and> Sample.Histogram (vector ! nat i) = Some (generateTestSampleHistogram X i))"
  unfolding GenerateNHistogramSeries_eq
  by (simp add: buildSeries_Some float64_def)

theorem bulk_index_witness:
  "\<exists>series vector s'.
     GenerateNHistogramSeries exampleExternals 3 1 (Some (countingCallback ''series'')) 7 None 0 =
       Inr ((series, vector), s')
     \<and> length series = 3 \<and> length vector = 3
     \<and> (0::int) \<le> 0 \<and> (0::int) < 3 \<and> (0::int) < 1
     \<and> Exemplars (series ! 0) =
          [\<lparr>Exemplar.Labels = [\<lparr>Name = ''trace_id'', Label.Value = ''1234''\<rparr>],
            Exemplar.Value = 0, Exemplar.Timestamp = 7\<rparr>]
     \<and> (0::int) \<le> 2 \<and> (2::int) < 3 \<and> \<not> (2::int) < 1
     \<and> Exemplars (series ! 2) = []
     \<and> TimeSeries.Histograms (series ! 2) = [HistogramToHistogramProto 7 (''counter'', 2)]
     \<and> Sample.Histogram (vector ! 2) = Some 2"
proof -
  from bulk_index [of exampleExternals 3 1 "countingCallback ''series''" 7 None 0]
  obtain series vector s' where
    run: "GenerateNHistogramSeries exampleExternals 3 1 (Some (countingCallback ''series'')) 7 None 0 =
            Inr ((series, vector), s')"
    and len: "int (length series) = max 0 3" "length vector = length series"
    and at: "\<And>i. 0 \<le> i \<and> i < 3 \<Longrightarrow>
          Exemplars (series ! nat i) =
            (if i < 1
             then [\<lparr>Exemplar.Labels = [\<lparr>Name = ''trace_id'', Label.Value = ''1234''\<rparr>],
                    Exemplar.Value = float64 i,
                    Exemplar.Timestamp = TimeToMilliseconds exampleExternals 7\<rparr>]
             else [])
          \<and> (i \<le> 2 ^ 53 \<longrightarrow> float64 i = of_int i)
          \<and> TimeSeries.Histograms (series ! nat i) =
              [HistogramToHistogramProto (TimeToMilliseconds exampleExternals 7)
                 (generateTestHistogram exampleExternals i)]
          \<and> Sample.Histogram (vector ! nat i) = Some (generateTestSampleHistogram exampleExternals i)"
    by blast
  from at [of 0] at [of 2] len run show ?thesis
    by (simp add: exampleExternals_def)
qed

lemma bulk_labels_sets:
  "\<exists>series vector s'.
     GenerateNHistogramSeries X nSeries nExemplars (Some name) ts additionalLabels s =
       Inr ((series, vector), s')
     \<and> s' = (callbacksOnce name additionalLabels ^^ nat nSeries) s
     \<and> (\<forall>i. 0 \<le> i \<and> i < nSeries \<longrightarrow>
          Sample.Metric (vector ! nat i) = assignLabels (TimeSeries.Labels (series ! nat i)) Map.empty
          \<and> dom (Sample.Metric (vector ! nat i)) = Name ` set (TimeSeries.Labels (series ! nat i))
          \<and> Map.graph (Sample.Metric (vector ! nat i)) \<subseteq> labelPairs (TimeSeries.Labels (series ! nat i))
          \<and> (Map.graph (Sample.Metric (vector ! nat i)) = labelPairs (TimeSeries.Labels (series ! nat i))
               \<longleftrightarrow> singleValued (TimeSeries.Labels (series ! nat i))))"
  unfolding GenerateNHistogramSeries_eq
  by (simp add: assignLabels_dom assignLabels_graph_sub assignLabels_graph_iff)

text \<open>
  C5, as amended. The callbacks are called in the \<open>nSeries\<close> rounds of the first loop
  and not again. For every index \<open>i\<close> from 0 below \<open>nSeries\<close> the metric of vector
  entry \<open>i\<close> is derived from the labels of wire series \<open>i\<close>: it is the map obtained by
  assigning them in order, has exactly their names, and each of its entries is a label of
  wire series \<open>i\<close>. It is exactly the label set of wire series \<open>i\<close> if and only if no
  name has two different values among those labels. Of a name given more than once the
  expected entry keeps only the later value: the metric gives every name the value of the
  last label of that name in wire series \<open>i\<close>, so a label that no later label of the same
  name follows is an entry of the metric.
\<close>

theorem bulk_labels:
  "\<exists>series vector s'.
     GenerateNHistogramSeries X nSeries nExemplars (Some name) ts additionalLabels s =
       Inr ((series, vector), s')
     \<and> s' = (callbacksOnce name additionalLabels ^^ nat nSeries) s
     \<and> (\<forall>i. 0 \<le> i \<and> i < nSeries \<longrightarrow>
          Sample.Metric (vector ! nat i) = assignLabels (TimeSeries.Labels (series ! nat i)) Map.empty
          \<and> dom (Sample.Metric (vector ! nat i)) = Name ` set (TimeSeries.Labels (series ! nat i))
          \<and> Map.graph (Sample.Metric (vector ! nat i)) \<subseteq> labelPairs (TimeSeries.Labels (series ! nat i))
          \<and> (Map.graph (Sample.Metric (vector ! nat i)) = labelPairs (TimeSeries.Labels (series ! nat i))
               \<longleftrightarrow> singleValued (TimeSeries.Labels (series ! nat i)))
          \<and> Sample.Metric (vector ! nat i) = lastValue (TimeSeries.Labels (series ! nat i))
          \<and> (\<forall>before lbl after.
                TimeSeries.Labels (series ! nat i) = before @ lbl # after
                \<and> Name lbl \<notin> Name ` set after \<longrightarrow>
                Sample.Metric (vector ! nat i) (Name lbl) = Some (Label.Value lbl)))"
proof -
  from bulk_labels_sets [of X nSeries nExemplars name ts additionalLabels s]
  obtain series vector s' where
    run: "GenerateNHistogramSeries X nSeries nExemplars (Some name) ts additionalLabels s =
            Inr ((series, vector), s')"
    and st: "s' = (callbacksOnce name additionalLabels ^^ nat nSeries) s"
    and at: "\<And>i. 0 \<le> i \<and> i < nSeries \<Longrightarrow>
          Sample.Metric (vector ! nat i) = assignLabels (TimeSeries.Labels (series ! nat i)) Map.empty
          \<and> dom (Sample.Metric (vector ! nat i)) = Name ` set (TimeSeries.Labels (series ! nat i))
          \<and> Map.graph (Sample.Metric (vector ! nat i)) \<subseteq> labelPairs (TimeSeries.Labels (series ! nat i))
          \<and> (Map.graph (Sample.Metric (vector ! nat i)) = labelPairs (TimeSeries.Labels (series ! nat i))
               \<longleftrightarrow> singleValued (TimeSeries.Labels (series ! nat i)))"
    by blast
  have more: "Sample.Metric (vector ! nat i) = lastValue (TimeSeries.Labels (series ! nat i))
          \<and> (\<forall>before lbl after.
                TimeSeries.Labels (series ! nat i) = before @ lbl # after
                \<and> Name lbl \<notin> Name ` set after \<longrightarrow>
                Sample.Metric (vector ! nat i) (Name lbl) = Some (Label.Value lbl))"
    if "0 \<le> i \<and> i < nSeries" for i
  proof -
    from at [OF that]
    have metric: "Sample.Metric (vector ! nat i) =
                    assignLabels (TimeSeries.Labels (series ! nat i)) Map.empty"
      by simp
    show ?thesis
      unfolding metric
      by (intro conjI allI impI, rule assignLabels_empty_lastValue)
         (blast intro: assignLabels_last)
  qed
  from run st at more show ?thesis
    by blast
qed

theorem bulk_labels_witness:
  "(\<exists>series vector s'.
      GenerateNHistogramSeries exampleExternals 2 0 (Some (countingCallback ''series'')) 7
         (Some (countingCallback [\<lparr>Name = ''job'', Label.Value = ''a''\<rparr>])) 0 =
        Inr ((series, vector), s')
      \<and> s' = 4
      \<and> (0::int) \<le> 1 \<and> (1::int) < 2
      \<and> TimeSeries.Labels (series ! 1) =
           [\<lparr>Name = ''__name__'', Label.Value = ''series''\<rparr>, \<lparr>Name = ''job'', Label.Value = ''a''\<rparr>]
      \<and> singleValued (TimeSeries.Labels (series ! 1))
      \<and> Map.graph (Sample.Metric (vector ! 1)) = labelPairs (TimeSeries.Labels (series ! 1)))
   \<and> (\<exists>series vector s'.
      GenerateNHistogramSeries exampleExternals 1 0 (Some (countingCallback ''series'')) 7
         (Some (countingCallback [\<lparr>Name = ''job'', Label.Value = ''a''\<rparr>,
                                  \<lparr>Name = ''job'', Label.Value = ''b''\<rparr>])) 0 =
        Inr ((series, vector), s')
      \<and> (0::int) \<le> 0 \<and> (0::int) < 1
      \<and> TimeSeries.Labels (series ! 0) =
           [\<lparr>Name = ''__name__'', Label.Value = ''series''\<rparr>, \<lparr>Name = ''job'', Label.Value = ''a''\<rparr>]
             @ \<lparr>Name = ''job'', Label.Value = ''b''\<rparr> # []
      \<and> ''job'' \<notin> Name ` set ([] :: Label list)
      \<and> Sample.Metric (vector ! 0) ''job'' = Some ''b'')"
proof (rule conjI)
  from bulk_labels [of exampleExternals 2 0 "countingCallback ''series''" 7
      "Some (countingCallback [\<lparr>Name = ''job'', Label.Value = ''a''\<rparr>])" 0]
  obtain series vector s' where
    run: "GenerateNHistogramSeries exampleExternals 2 0 (Some (countingCallback ''series'')) 7
        (Some (countingCallback [\<lparr>Name = ''job'', Label.Value = ''a''\<rparr>])) 0 =
       Inr ((series, vector), s')"
    and st: "s' = (callbacksOnce (countingCallback ''series'')
                    (Some (countingCallback [\<lparr>Name = ''job'', Label.Value = ''a''\<rparr>])) ^^ nat 2) 0"
    and every: "\<forall>i. 0 \<le> i \<and> i < 2 \<longrightarrow>
          Sample.Metric (vector ! nat i) = assignLabels (TimeSeries.Labels (series ! nat i)) Map.empty
          \<and> dom (Sample.Metric (vector ! nat i)) = Name ` set (TimeSeries.Labels (series ! nat i))
          \<and> Map.graph (Sample.Metric (vector ! nat i)) \<subseteq> labelPairs (TimeSeries.Labels (series ! nat i))
          \<and> (Map.graph (Sample.Metric (vector ! nat i)) = labelPairs (TimeSeries.Labels (series ! nat i))
               \<longleftrightarrow> singleValued (TimeSeries.Labels (series ! nat i)))
          \<and> Sample.Metric (vector ! nat i) = lastValue (TimeSeries.Labels (series ! nat i))
          \<and> (\<forall>before lbl after.
                TimeSeries.Labels (series ! nat i) = before @ lbl # after
                \<and> Name lbl \<notin> Name ` set after \<longrightarrow>
                Sample.Metric (vector ! nat i) (Name lbl) = Some (Label.Value lbl))"
    by (elim exE conjE)
  have "(0::int) \<le> 1 \<and> (1::int) < 2"
    by simp
  from every [rule_format, OF this]
  have "Map.graph (Sample.Metric (vector ! nat 1)) = labelPairs (TimeSeries.Labels (series ! nat 1))
               \<longleftrightarrow> singleValued (TimeSeries.Labels (series ! nat 1))"
    by (elim conjE)
  then have at: "Map.graph (Sample.Metric (vector ! 1)) = labelPairs (TimeSeries.Labels (series ! 1))
               \<longleftrightarrow> singleValued (TimeSeries.Labels (series ! 1))"
    by simp
  have lbls: "TimeSeries.Labels (series ! 1) =
          [\<lparr>Name = ''__name__'', Label.Value = ''series''\<rparr>, \<lparr>Name = ''job'', Label.Value = ''a''\<rparr>]"
    using run by (auto simp add: GenerateNHistogramSeries_eq buildSeries_Some countingCallback_def
        MetricName_def callbacksOnce_def)
  have sv: "singleValued (TimeSeries.Labels (series ! 1))"
    unfolding lbls by (simp add: singleValued_def)
  have "s' = 4"
    unfolding st by (simp add: callbacksOnce_def countingCallback_def numeral_2_eq_2)
  with at sv lbls run
  show "\<exists>series vector s'.
      GenerateNHistogramSeries exampleExternals 2 0 (Some (countingCallback ''series'')) 7
         (Some (countingCallback [\<lparr>Name = ''job'', Label.Value = ''a''\<rparr>])) 0 =
        Inr ((series, vector), s')
      \<and> s' = 4
      \<and> (0::int) \<le> 1 \<and> (1::int) < 2
      \<and> TimeSeries.Labels (series ! 1) =
           [\<lparr>Name = ''__name__'', Label.Value = ''series''\<rparr>, \<lparr>Name = ''job'', Label.Value = ''a''\<rparr>]
      \<and> singleValued (TimeSeries.Labels (series ! 1))
      \<and> Map.graph (Sample.Metric (vector ! 1)) = labelPairs (TimeSeries.Labels (series ! 1))"
    by simp
next
  from bulk_labels [of exampleExternals 1 0 "countingCallback ''series''" 7
      "Some (countingCallback [\<lparr>Name = ''job'', Label.Value = ''a''\<rparr>,
                               \<lparr>Name = ''job'', Label.Value = ''b''\<rparr>])" 0]
  obtain series vector s' where
    run: "GenerateNHistogramSeries exampleExternals 1 0 (Some (countingCallback ''series'')) 7
        (Some (countingCallback [\<lparr>Name = ''job'', Label.Value = ''a''\<rparr>,
                                 \<lparr>Name = ''job'', Label.Value = ''b''\<rparr>])) 0 =
       Inr ((series, vector), s')"
    and st: "s' = (callbacksOnce (countingCallback ''series'')
                    (Some (countingCallback [\<lparr>Name = ''job'', Label.Value = ''a''\<rparr>,
                                             \<lparr>Name = ''job'', Label.Value = ''b''\<rparr>])) ^^ nat 1) 0"
    and every: "\<forall>i. 0 \<le> i \<and> i < 1 \<longrightarrow>
          Sample.Metric (vector ! nat i) = assignLabels (TimeSeries.Labels (series ! nat i)) Map.empty
          \<and> dom (Sample.Metric (vector ! nat i)) = Name ` set (TimeSeries.Labels (series ! nat i))
          \<and> Map.graph (Sample.Metric (vector ! nat i)) \<subseteq> labelPairs (TimeSeries.Labels (series ! nat i))
          \<and> (Map.graph (Sample.Metric (vector ! nat i)) = labelPairs (TimeSeries.Labels (series ! nat i))
               \<longleftrightarrow> singleValued (TimeSeries.Labels (series ! nat i)))
          \<and> Sample.Metric (vector ! nat i) = lastValue (TimeSeries.Labels (series ! nat i))
          \<and> (\<forall>before lbl after.
                TimeSeries.Labels (series ! nat i) = before @ lbl # after
                \<and> Name lbl \<notin> Name ` set after \<longrightarrow>
                Sample.Metric (vector ! nat i) (Name lbl) = Some (Label.Value lbl))"
    by (elim exE conjE)
  have "(0::int) \<le> 0 \<and> (0::int) < 1"
    by simp
  from every [rule_format, OF this]
  have "\<forall>before lbl after.
                TimeSeries.Labels (series ! nat 0) = before @ lbl # after
                \<and> Name lbl \<notin> Name ` set after \<longrightarrow>
                Sample.Metric (vector ! nat 0) (Name lbl) = Some (Label.Value lbl)"
    by (elim conjE)
  then have later: "\<forall>before lbl after.
                TimeSeries.Labels (series ! 0) = before @ lbl # after
                \<and> Name lbl \<notin> Name ` set after \<longrightarrow>
                Sample.Metric (vector ! 0) (Name lbl) = Some (Label.Value lbl)"
    by simp
  have split: "TimeSeries.Labels (series ! 0) =
           [\<lparr>Name = ''__name__'', Label.Value = ''series''\<rparr>, \<lparr>Name = ''job'', Label.Value = ''a''\<rparr>]
             @ \<lparr>Name = ''job'', Label.Value = ''b''\<rparr> # []"
    using run by (auto simp add: GenerateNHistogramSeries_eq buildSeries_Some countingCallback_def
        MetricName_def callbacksOnce_def)
  from later [rule_format,
      of "[\<lparr>Name = ''__name__'', Label.Value = ''series''\<rparr>, \<lparr>Name = ''job'', Label.Value = ''a''\<rparr>]"
         "\<lparr>Name = ''job'', Label.Value = ''b''\<rparr>" "[]"] split
  have kept: "Sample.Metric (vector ! 0) ''job'' = Some ''b''"
    by simp
  with split run
  show "\<exists>series vector s'.
      GenerateNHistogramSeries exampleExternals 1 0 (Some (countingCallback ''series'')) 7
         (Some (countingCallback [\<lparr>Name = ''job'', Label.Value = ''a''\<rparr>,
                                  \<lparr>Name = ''job'', Label.Value = ''b''\<rparr>])) 0 =
        Inr ((series, vector), s')
      \<and> (0::int) \<le> 0 \<and> (0::int) < 1
      \<and> TimeSeries.Labels (series ! 0) =
           [\<lparr>Name = ''__name__'', Label.Value = ''series''\<rparr>, \<lparr>Name = ''job'', Label.Value = ''a''\<rparr>]
             @ \<lparr>Name = ''job'', Label.Value = ''b''\<rparr> # []
      \<and> ''job'' \<notin> Name ` set ([] :: Label list)
      \<and> Sample.Metric (vector ! 0) ''job'' = Some ''b''"
    by simp
qed

text \<open>
  C5 as stated, for every series, fails when the callbacks give a name twice: with the
  name \<^verbatim>\<open>m\<close> and the additional label \<^verbatim>\<open>__name__="x"\<close>, wire series 0 carries both
  \<^verbatim>\<open>__name__="m"\<close> and \<^verbatim>\<open>__name__="x"\<close>, and the metric of vector entry 0 only the
  latter.
\<close>

theorem bulk_labels_counterexample:
  "labelPairs (TimeSeries.Labels (fst (fst (projr
      (GenerateNHistogramSeries exampleExternals 1 0 (Some (fixedCallback ''m'')) 0
         (Some (fixedCallback [\<lparr>Name = ''__name__'', Label.Value = ''x''\<rparr>])) ()))) ! 0))
   \<noteq> Map.graph (Sample.Metric (snd (fst (projr
      (GenerateNHistogramSeries exampleExternals 1 0 (Some (fixedCallback ''m'')) 0
         (Some (fixedCallback [\<lparr>Name = ''__name__'', Label.Value = ''x''\<rparr>])) ()))) ! 0))
   \<and> Sample.Metric (snd (fst (projr
      (GenerateNHistogramSeries exampleExternals 1 0 (Some (fixedCallback ''m'')) 0
         (Some (fixedCallback [\<lparr>Name = ''__name__'', Label.Value = ''x''\<rparr>])) ()))) ! 0)
        ''__name__'' = Some ''x''"
proof -
  let ?R = "GenerateNHistogramSeries exampleExternals 1 0 (Some (fixedCallback ''m'')) 0
         (Some (fixedCallback [\<lparr>Name = ''__name__'', Label.Value = ''x''\<rparr>])) ()"
  have wire: "TimeSeries.Labels (fst (fst (projr ?R)) ! 0) =
      [\<lparr>Name = ''__name__'', Label.Value = ''m''\<rparr>, \<lparr>Name = ''__name__'', Label.Value = ''x''\<rparr>]"
    by (simp add: GenerateNHistogramSeries_eq buildSeries_Some fixedCallback_def MetricName_def)
  have expected: "Sample.Metric (snd (fst (projr ?R)) ! 0) ''__name__'' = Some ''x''"
    by (simp add: GenerateNHistogramSeries_eq buildSeries_Some fixedCallback_def MetricName_def
        assignLabels_Cons assignLabels_Nil)
  have "(''__name__'', ''m'') \<in> labelPairs (TimeSeries.Labels (fst (fst (projr ?R)) ! 0))"
    unfolding wire by (simp add: labelPairs_def)
  moreover have "(''__name__'', ''m'') \<notin> Map.graph (Sample.Metric (snd (fst (projr ?R)) ! 0))"
    using expected by (auto dest: in_graphD)
  ultimately have "labelPairs (TimeSeries.Labels (fst (fst (projr ?R)) ! 0))
                     \<noteq> Map.graph (Sample.Metric (snd (fst (projr ?R)) ! 0))"
    by blast
  then show ?thesis using expected by (intro conjI)
qed

end
